theory Spec2Isabelle
  imports Complex_Main
begin

section \<open>The realtime relay (src/realtime/index.js)\<close>

text \<open>
  The relay keeps a set of WebSocket clients, consumes a RabbitMQ queue and forwards every
  event to the clients. The built-ins it calls (\<^verbatim>\<open>JSON.parse\<close>, \<^verbatim>\<open>JSON.stringify\<close>,
  \<^verbatim>\<open>Buffer.toString\<close>, \<^verbatim>\<open>Math.random\<close>) and \<^verbatim>\<open>amqp.connect\<close> are parameters of the
  model. What the \<^verbatim>\<open>ws\<close> library does on a call of \<^verbatim>\<open>send\<close> or \<^verbatim>\<open>terminate\<close> depends on
  the state of the socket and is written down below. The model records the calls the relay
  makes on its sockets and on the channel. Console output is not recorded, except for the
  readiness line of \<^verbatim>\<open>start\<close>.
\<close>

subsection \<open>Data model\<close>

text \<open>A thrown JavaScript exception, or an error reported to a callback, with its message.\<close>

datatype error = Error string

text \<open>The four values of \<^verbatim>\<open>readyState\<close> of a \<^verbatim>\<open>ws\<close> socket.\<close>

datatype ready_state = CONNECTING | OPEN | CLOSING | CLOSED

type_synonym ws_id = nat

text \<open>
  A client socket: its identity, the \<^verbatim>\<open>readyState\<close> the library maintains, the
  \<^verbatim>\<open>isAlive\<close> flag the relay attaches to it, and how the write of a frame on its stream
  ends (\<open>None\<close>: the frame is written; \<open>Some e\<close>: the write fails with \<open>e\<close>). The library
  learns of a failed write after \<^verbatim>\<open>send\<close> has returned.
\<close>

record ws =
  ident :: ws_id
  readyState :: ready_state
  isAlive :: bool
  writeError :: "error option"

text \<open>What became of a frame passed to \<^verbatim>\<open>send\<close>.\<close>

datatype outcome = Delivered | Lost error

text \<open>A JSON value, as \<^verbatim>\<open>JSON.parse\<close> returns it and \<^verbatim>\<open>JSON.stringify\<close> takes it.\<close>

datatype json =
    JNull
  | JBool bool
  | JNum real
  | JStr string
  | JArr "json list"
  | JObj "(string \<times> json) list"

text \<open>The bytes of a \<^verbatim>\<open>Buffer\<close>.\<close>

type_synonym buffer = "char list"

text \<open>A queue delivery: the delivery tag that \<^verbatim>\<open>ack\<close> and \<^verbatim>\<open>nack\<close> refer to, and the content.\<close>

record amqp_msg =
  deliveryTag :: nat
  content :: buffer

text \<open>
  The calls the relay makes on its sockets and on the channel, in the order it makes them.
  \<open>Send i m r\<close> is \<^verbatim>\<open>send(m)\<close> on socket \<open>i\<close>, with what became of the frame;
  \<open>Nack t allUpTo requeue\<close> is \<^verbatim>\<open>channel.nack(msg, allUpTo, requeue)\<close>.
\<close>

datatype call =
    Send ws_id string outcome
  | Ping ws_id
  | Terminate ws_id
  | Ack nat
  | Nack nat bool bool

text \<open>
  The relay's state: \<^verbatim>\<open>wsClients\<close>, a JavaScript \<^verbatim>\<open>Set\<close>, is the list of its members in
  insertion order (the order \<^verbatim>\<open>Array.from\<close> yields); \<open>trace\<close> is the calls made so far.
\<close>

record relay =
  wsClients :: "ws list"
  trace :: "call list"

text \<open>
  A number of the configuration: \<^verbatim>\<open>parseInt\<close> yields an integer, or \<^verbatim>\<open>NaN\<close> when the
  variable of the environment does not start with digits.
\<close>

datatype number = NaN | Num int

subsection \<open>The ws library\<close>

text \<open>
  \<^verbatim>\<open>send\<close>: on a socket that is still connecting it throws; on an open socket it hands
  the frame to the stream and returns, whether or not the write succeeds later; on a socket
  that is closing or closed it returns without writing.
\<close>

definition ws_send :: "ws \<Rightarrow> error + outcome" where
  "ws_send c =
     (case readyState c of
        CONNECTING \<Rightarrow> Inl (Error ''WebSocket is not open: readyState 0 (CONNECTING)'')
      | OPEN \<Rightarrow> Inr (case writeError c of None \<Rightarrow> Delivered | Some e \<Rightarrow> Lost e)
      | CLOSING \<Rightarrow> Inr (Lost (Error ''WebSocket is not open: readyState 2 (CLOSING)''))
      | CLOSED \<Rightarrow> Inr (Lost (Error ''WebSocket is not open: readyState 3 (CLOSED)'')))"

text \<open>
  \<^verbatim>\<open>terminate\<close>: a socket that is not closed yet becomes \<^verbatim>\<open>CLOSING\<close> at once; its close
  event comes later.
\<close>

definition ws_terminate :: "ws \<Rightarrow> ws" where
  "ws_terminate w = (if readyState w = CLOSED then w else w\<lparr>readyState := CLOSING\<rparr>)"

subsection \<open>Connection handlers (lines 70-91)\<close>

text \<open>
  \<^verbatim>\<open>wss.on('connection', ...)\<close>: the flag is set and the socket is added; \<^verbatim>\<open>Set.add\<close> of a
  member changes nothing.
\<close>

definition on_connection :: "ws \<Rightarrow> relay \<Rightarrow> relay" where
  "on_connection w s =
     (if ident w \<in> ident ` set (wsClients s)
      then s\<lparr>wsClients := map (\<lambda>c. if ident c = ident w then c\<lparr>isAlive := True\<rparr> else c) (wsClients s)\<rparr>
      else s\<lparr>wsClients := wsClients s @ [w\<lparr>isAlive := True\<rparr>]\<rparr>)"

text \<open>\<^verbatim>\<open>ws.on('pong', ...)\<close>\<close>

definition on_pong :: "ws_id \<Rightarrow> relay \<Rightarrow> relay" where
  "on_pong i s =
     s\<lparr>wsClients := map (\<lambda>c. if ident c = i then c\<lparr>isAlive := True\<rparr> else c) (wsClients s)\<rparr>"

text \<open>\<^verbatim>\<open>ws.on('close', ...)\<close>: the only place where a socket leaves \<^verbatim>\<open>wsClients\<close>.\<close>

definition on_close :: "ws_id \<Rightarrow> relay \<Rightarrow> relay" where
  "on_close i s = s\<lparr>wsClients := filter (\<lambda>c. ident c \<noteq> i) (wsClients s)\<rparr>"

subsection \<open>broadcast (lines 97-103)\<close>

text \<open>
  The loop over the snapshot \<^verbatim>\<open>Array.from(wsClients)\<close>. It returns the calls it made and
  the exception that left it, if any: \<^verbatim>\<open>client.send(msg)\<close> is not inside a \<^verbatim>\<open>try\<close>, so an
  exception of \<^verbatim>\<open>send\<close> would end the loop.
\<close>

fun broadcast_loop :: "ws list \<Rightarrow> string \<Rightarrow> call list \<times> error option" where
  "broadcast_loop [] msg = ([], None)"
| "broadcast_loop (client # rest) msg =
     (if readyState client = OPEN then
        (case ws_send client of
           Inl e \<Rightarrow> ([], Some e)
         | Inr r \<Rightarrow>
             (let (calls, x) = broadcast_loop rest msg
              in (Send (ident client) msg r # calls, x)))
      else broadcast_loop rest msg)"

definition broadcast :: "string \<Rightarrow> relay \<Rightarrow> relay \<times> error option" where
  "broadcast msg s =
     (let (calls, x) = broadcast_loop (wsClients s) msg
      in (s\<lparr>trace := trace s @ calls\<rparr>, x))"

subsection \<open>The message handler of a client socket (lines 76-85)\<close>

text \<open>
  \<open>parse\<close> is \<^verbatim>\<open>JSON.parse\<close> (\<open>None\<close>: it throws a SyntaxError); \<open>stringify\<close> is
  \<^verbatim>\<open>JSON.stringify\<close>, which throws on a value it cannot serialize (\<open>Inl\<close>). The \<^verbatim>\<open>try\<close>
  encloses both calls and the call of \<^verbatim>\<open>broadcast\<close>, so the handler catches whatever
  they throw. The second component is the exception that leaves the handler.
\<close>

definition on_message ::
  "(string \<Rightarrow> json option) \<Rightarrow> (json \<Rightarrow> error + string) \<Rightarrow> string \<Rightarrow> relay
     \<Rightarrow> relay \<times> error option" where
  "on_message parse stringify message s =
     (case parse message of
        None \<Rightarrow> (s, None)
      | Some data \<Rightarrow>
          (case stringify data of
             Inl e \<Rightarrow> (s, None)
           | Inr text \<Rightarrow>
               (let (s', x) = broadcast text s
                in (s', None))))"

subsection \<open>The heartbeat callback (lines 145-151)\<close>

text \<open>
  One run of the interval callback over the snapshot. \<^verbatim>\<open>return ws.terminate()\<close> leaves the
  callback, so the sockets after the first one whose flag is false are not visited. The loop
  returns the sockets as the run leaves them, and the calls made.
\<close>

fun heartbeat_loop :: "ws list \<Rightarrow> ws list \<times> call list" where
  "heartbeat_loop [] = ([], [])"
| "heartbeat_loop (w # rest) =
     (if \<not> isAlive w then (ws_terminate w # rest, [Terminate (ident w)])
      else
        (let (rest', calls) = heartbeat_loop rest
         in (w\<lparr>isAlive := False\<rparr> # rest', Ping (ident w) # calls)))"

definition heartbeat :: "relay \<Rightarrow> relay" where
  "heartbeat s =
     (let (clients, calls) = heartbeat_loop (wsClients s)
      in s\<lparr>wsClients := clients, trace := trace s @ calls\<rparr>)"

subsection \<open>The consumer callback of consumeQueue (lines 121-135)\<close>

text \<open>
  \<^verbatim>\<open>channel.nack(msg, false, false)\<close>. The library dispatches a delivery on an open channel
  and the callback does not suspend before it settles the message, so \<^verbatim>\<open>ack\<close> and
  \<^verbatim>\<open>nack\<close> return; the \<^verbatim>\<open>catch\<close> around \<^verbatim>\<open>nack\<close> has nothing to catch.
\<close>

definition nack_dropped :: "amqp_msg \<Rightarrow> relay \<Rightarrow> relay" where
  "nack_dropped m s = s\<lparr>trace := trace s @ [Nack (deliveryTag m) False False]\<rparr>"

text \<open>The payload: the parsed content, or \<^verbatim>\<open>{ raw: content }\<close> when parsing throws.\<close>

definition payload_of :: "(string \<Rightarrow> json option) \<Rightarrow> string \<Rightarrow> json" where
  "payload_of parse c =
     (case parse c of Some v \<Rightarrow> v | None \<Rightarrow> JObj [(''raw'', JStr c)])"

text \<open>\<^verbatim>\<open>{ source: 'realtime', payload }\<close>\<close>

definition wrap :: "json \<Rightarrow> json" where
  "wrap payload = JObj [(''source'', JStr ''realtime''), (''payload'', payload)]"

text \<open>
  The callback; \<open>None\<close> is the \<^verbatim>\<open>null\<close> the library passes when the consumer is cancelled.
  \<open>toString\<close> is \<^verbatim>\<open>Buffer.toString('utf8')\<close>, which decodes the bytes and does not throw.
  \<^verbatim>\<open>JSON.stringify\<close>, \<^verbatim>\<open>broadcast\<close> and \<^verbatim>\<open>channel.ack\<close> are inside the outer \<^verbatim>\<open>try\<close>:
  when the serialization or the broadcast throws, the \<^verbatim>\<open>catch\<close> calls \<^verbatim>\<open>nack\<close>.
\<close>

definition consumer ::
  "(buffer \<Rightarrow> string) \<Rightarrow> (string \<Rightarrow> json option) \<Rightarrow> (json \<Rightarrow> error + string)
     \<Rightarrow> amqp_msg option \<Rightarrow> relay \<Rightarrow> relay" where
  "consumer toString parse stringify msg s =
     (case msg of
        None \<Rightarrow> s
      | Some m \<Rightarrow>
          (let payload = payload_of parse (toString (content m))
           in case stringify (wrap payload) of
                Inl err \<Rightarrow> nack_dropped m s
              | Inr text \<Rightarrow>
                  (let (s1, x) = broadcast text s
                   in case x of
                        Some err \<Rightarrow> nack_dropped m s1
                      | None \<Rightarrow> s1\<lparr>trace := trace s1 @ [Ack (deliveryTag m)]\<rparr>)))"

subsection \<open>connectToRabbit (lines 38-64)\<close>

text \<open>
  The body of the \<^verbatim>\<open>try\<close>: \<^verbatim>\<open>amqp.connect(url)\<close>, then \<^verbatim>\<open>connection.createChannel()\<close>.
  \<open>connect n\<close> is what the \<open>n\<close>-th call of \<^verbatim>\<open>amqp.connect\<close> does.
\<close>

definition try_connect ::
  "(nat \<Rightarrow> error + 'c) \<Rightarrow> ('c \<Rightarrow> error + 'h) \<Rightarrow> nat \<Rightarrow> error + ('c \<times> 'h)" where
  "try_connect connect createChannel n =
     (case connect n of
        Inl e \<Rightarrow> Inl e
      | Inr connection \<Rightarrow>
          (case createChannel connection of
             Inl e \<Rightarrow> Inl e
           | Inr ch \<Rightarrow> Inr (connection, ch)))"

text \<open>
  \<^verbatim>\<open>Math.floor(Math.random() * 300)\<close>, for a draw \<open>r\<close> of \<^verbatim>\<open>Math.random\<close>. The product
  is taken over the real numbers. The code multiplies doubles and rounds the product, so
  for some draws its jitter is one more than \<open>jitter_of\<close>; the rounded product of a double
  below 1 with 300 is below 300 as well, so both lie in the same range.
\<close>

definition jitter_of :: "real \<Rightarrow> int" where
  "jitter_of r = \<lfloor>r * 300\<rfloor>"

text \<open>
  The arithmetic of the loop on configured numbers. \<^verbatim>\<open>attempt >= MAX_RETRIES\<close> is false
  when \<^verbatim>\<open>MAX_RETRIES\<close> is \<^verbatim>\<open>NaN\<close>; \<^verbatim>\<open>delay + jitter\<close> and
  \<^verbatim>\<open>Math.min(delay * 2, 30000)\<close> are \<^verbatim>\<open>NaN\<close> when \<^verbatim>\<open>delay\<close> is.
\<close>

fun is_last :: "nat \<Rightarrow> number \<Rightarrow> bool" where
  "is_last attempt NaN = False"
| "is_last attempt (Num m) = (int attempt \<ge> m)"

fun plus_jitter :: "number \<Rightarrow> int \<Rightarrow> number" where
  "plus_jitter NaN j = NaN"
| "plus_jitter (Num d) j = Num (d + j)"

fun next_delay :: "number \<Rightarrow> number" where
  "next_delay NaN = NaN"
| "next_delay (Num d) = Num (min (d * 2) 30000)"

text \<open>
  The \<^verbatim>\<open>while (true)\<close> loop. \<open>max_retries\<close> is \<^verbatim>\<open>MAX_RETRIES\<close>; \<open>attempt_fn n\<close> is the
  outcome of the \<open>n\<close>-th attempt; \<open>random n\<close> is the draw of \<^verbatim>\<open>Math.random\<close> made after the
  \<open>n\<close>-th attempt failed. The loop need not end: the result is \<open>None\<close> when the call never
  returns, and otherwise what the call returns or throws, the number of attempts made, and
  the arguments of \<^verbatim>\<open>sleep\<close> in order.
\<close>

partial_function (option) connect_loop ::
  "number \<Rightarrow> (nat \<Rightarrow> error + 'a) \<Rightarrow> (nat \<Rightarrow> real) \<Rightarrow> nat \<Rightarrow> number \<Rightarrow> number list
     \<Rightarrow> ((error + 'a) \<times> nat \<times> number list) option" where
  "connect_loop max_retries attempt_fn random attempt delay slept =
     (case attempt_fn (attempt + 1) of
        Inr res \<Rightarrow> Some (Inr res, attempt + 1, slept)
      | Inl err \<Rightarrow>
          (if is_last (attempt + 1) max_retries then Some (Inl err, attempt + 1, slept)
           else
             connect_loop max_retries attempt_fn random (attempt + 1)
               (next_delay delay)
               (slept @ [plus_jitter delay (jitter_of (random (attempt + 1)))])))"

declare connect_loop.simps [code]

definition connectToRabbit ::
  "number \<Rightarrow> number \<Rightarrow> (nat \<Rightarrow> error + 'c) \<Rightarrow> ('c \<Rightarrow> error + 'h) \<Rightarrow> (nat \<Rightarrow> real)
     \<Rightarrow> ((error + ('c \<times> 'h)) \<times> nat \<times> number list) option" where
  "connectToRabbit max_retries initial_delay_ms connect createChannel random =
     connect_loop max_retries (try_connect connect createChannel) random 0 initial_delay_ms []"

subsection \<open>Startup (lines 67-68 and 139-171)\<close>

text \<open>
  The module's top level constructs the WebSocket server (line 67), which listens from
  then on, and registers the connection handler (line 70); then it calls \<^verbatim>\<open>start\<close>, which
  suspends at \<^verbatim>\<open>await connectToRabbit()\<close> and again at \<^verbatim>\<open>await consumeQueue(...)\<close>. While
  \<^verbatim>\<open>start\<close> is suspended the event loop runs the connection handler for every client
  that arrives. When \<^verbatim>\<open>consumeQueue\<close> returns, \<^verbatim>\<open>start\<close> sets the heartbeat timer and
  writes the readiness line without suspending again. An exception in either step ends
  the process (\<^verbatim>\<open>process.exit(1)\<close>).
\<close>

datatype phase = Connecting | Consuming | Running | Exited

record startup =
  phase :: phase
  listening :: bool
  queueConnected :: bool
  consumeStarted :: bool
  monitorStarted :: bool
  readyLogged :: bool
  accepted :: nat

datatype startup_event =
    ClientConnects
  | ConnectReturns
  | ConnectThrows
  | ConsumeReturns
  | ConsumeThrows

text \<open>The state once the top level of the module has run.\<close>

definition module_loaded :: startup where
  "module_loaded =
     \<lparr>phase = Connecting, listening = True, queueConnected = False, consumeStarted = False,
      monitorStarted = False, readyLogged = False, accepted = 0\<rparr>"

text \<open>One event; \<open>None\<close> when the event cannot happen in the state.\<close>

fun startup_step :: "startup_event \<Rightarrow> startup \<Rightarrow> startup option" where
  "startup_step ClientConnects s =
     (if listening s then Some (s\<lparr>accepted := accepted s + 1\<rparr>) else None)"
| "startup_step ConnectReturns s =
     (if phase s = Connecting then Some (s\<lparr>phase := Consuming, queueConnected := True\<rparr>)
      else None)"
| "startup_step ConnectThrows s =
     (if phase s = Connecting then Some (s\<lparr>phase := Exited, listening := False\<rparr>) else None)"
| "startup_step ConsumeReturns s =
     (if phase s = Consuming
      then Some (s\<lparr>phase := Running, consumeStarted := True, monitorStarted := True,
                   readyLogged := True\<rparr>)
      else None)"
| "startup_step ConsumeThrows s =
     (if phase s = Consuming then Some (s\<lparr>phase := Exited, listening := False\<rparr>) else None)"

fun startup_run :: "startup_event list \<Rightarrow> startup \<Rightarrow> startup option" where
  "startup_run [] s = Some s"
| "startup_run (e # es) s =
     (case startup_step e s of None \<Rightarrow> None | Some s' \<Rightarrow> startup_run es s')"

subsection \<open>Notions used to state the properties\<close>

text \<open>
  What holds in each phase of the startup: the server listens until the process exits, the
  queue is connected from the second phase on, and consumption, the heartbeat timer and
  the readiness line come together when the third phase is entered.
\<close>

definition startup_inv :: "startup \<Rightarrow> bool" where
  "startup_inv s =
     (case phase s of
        Connecting \<Rightarrow>
          listening s \<and> \<not> queueConnected s \<and> \<not> consumeStarted s \<and> \<not> monitorStarted s
          \<and> \<not> readyLogged s
      | Consuming \<Rightarrow>
          listening s \<and> queueConnected s \<and> \<not> consumeStarted s \<and> \<not> monitorStarted s
          \<and> \<not> readyLogged s
      | Running \<Rightarrow>
          listening s \<and> queueConnected s \<and> consumeStarted s \<and> monitorStarted s \<and> readyLogged s
      | Exited \<Rightarrow>
          \<not> listening s \<and> \<not> consumeStarted s \<and> \<not> monitorStarted s \<and> \<not> readyLogged s)"

text \<open>What becomes of a frame that \<^verbatim>\<open>send\<close> hands to the stream of an open socket.\<close>

definition written :: "ws \<Rightarrow> outcome" where
  "written c = (case writeError c of None \<Rightarrow> Delivered | Some e \<Rightarrow> Lost e)"

text \<open>The calls a handler added to the trace.\<close>

definition new_calls :: "relay \<Rightarrow> relay \<Rightarrow> call list" where
  "new_calls s s' = drop (length (trace s)) (trace s')"

text \<open>The calls of \<^verbatim>\<open>ack\<close> and \<^verbatim>\<open>nack\<close> among a list of calls.\<close>

fun is_settlement :: "call \<Rightarrow> bool" where
  "is_settlement (Ack t) = True"
| "is_settlement (Nack t a q) = True"
| "is_settlement c = False"

definition settlements :: "call list \<Rightarrow> call list" where
  "settlements cs = filter is_settlement cs"

text \<open>The frames passed to \<^verbatim>\<open>send\<close> in a list of calls.\<close>

fun frames :: "call list \<Rightarrow> string list" where
  "frames [] = []"
| "frames (Send i m r # cs) = m # frames cs"
| "frames (c # cs) = frames cs"

text \<open>
  The delay of the \<open>n\<close>-th wait as the specification states it, before the jitter:
  \<open>min (initial * 2^(n-1)) ceiling\<close>, with the ceiling of 30000 ms.
\<close>

definition backoff :: "int \<Rightarrow> nat \<Rightarrow> int" where
  "backoff initial n = min (initial * 2 ^ (n - 1)) 30000"

subsection \<open>Sample environments\<close>

text \<open>A broker that refuses every connection, and one that accepts.\<close>

definition refused :: "nat \<Rightarrow> error + unit" where
  "refused n = Inl (Error ''ECONNREFUSED'')"

definition channel_opens :: "unit \<Rightarrow> error + unit" where
  "channel_opens c = Inr ()"

text \<open>Draws of \<^verbatim>\<open>Math.random\<close>.\<close>

definition draw_zero :: "nat \<Rightarrow> real" where
  "draw_zero n = 0"

definition draw_half :: "nat \<Rightarrow> real" where
  "draw_half n = 1 / 2"

text \<open>
  Sockets: an open one, one that is closing (its close event has not come yet, so it is
  still registered), and an open one on which writes fail.
\<close>

definition open_ws :: "ws_id \<Rightarrow> bool \<Rightarrow> ws" where
  "open_ws i a = \<lparr>ident = i, readyState = OPEN, isAlive = a, writeError = None\<rparr>"

definition closing_ws :: "ws_id \<Rightarrow> bool \<Rightarrow> ws" where
  "closing_ws i a = \<lparr>ident = i, readyState = CLOSING, isAlive = a, writeError = None\<rparr>"

definition broken_ws :: "ws_id \<Rightarrow> ws" where
  "broken_ws i =
     \<lparr>ident = i, readyState = OPEN, isAlive = True, writeError = Some (Error ''EPIPE'')\<rparr>"

text \<open>Content in ASCII decodes to itself.\<close>

definition ascii_toString :: "buffer \<Rightarrow> string" where
  "ascii_toString b = b"

text \<open>
  Nested arrays: \<open>nest n\<close> is the empty array inside \<open>n\<close> arrays, and \<open>brackets n\<close> is its
  text. \<open>depth\<close> is the number of nested arrays and objects of a value.
\<close>

fun nest :: "nat \<Rightarrow> json" where
  "nest 0 = JArr []"
| "nest (Suc n) = JArr [nest n]"

definition brackets :: "nat \<Rightarrow> string" where
  "brackets n = replicate (Suc n) CHR ''['' @ replicate (Suc n) CHR '']''"

fun depth :: "json \<Rightarrow> nat" where
  "depth (JArr vs) = Suc (fold max (map depth vs) 0)"
| "depth (JObj kvs) = Suc (fold max (map (\<lambda>kv. depth (snd kv)) kvs) 0)"
| "depth v = 0"

text \<open>
  A fragment of \<^verbatim>\<open>JSON.parse\<close>: it knows the text \<open>[7]\<close> and the texts of nested empty
  arrays, of any depth (the parser of the engine does not recurse).
\<close>

definition sample_parse :: "string \<Rightarrow> json option" where
  "sample_parse t =
     (if t = ''[7]'' then Some (JArr [JNum 7])
      else
        (let n = length (takeWhile (\<lambda>c. c = CHR ''['') t)
         in if 0 < n \<and> t = replicate n CHR ''['' @ replicate n CHR '']''
            then Some (nest (n - 1)) else None))"

text \<open>
  A fragment of \<^verbatim>\<open>JSON.stringify\<close>. The serializer recurses over the value and throws a
  RangeError when the call stack is exhausted; here the stack has room for 10000 nested
  values. Of the values that fit it knows \<open>[7]\<close> and the two values that the consumer builds
  from \<open>[7]\<close> and from the text \<open>not-json\<close>, whose serializations are \<open>seven_wrapped\<close> and
  \<open>raw_wrapped\<close>. \<open>quoted t\<close> is \<open>t\<close> between quotation marks.
\<close>

definition quoted :: "string \<Rightarrow> string" where
  "quoted t = CHR 0x22 # t @ [CHR 0x22]"

definition seven_wrapped :: string where
  "seven_wrapped =
     ''{'' @ quoted ''source'' @ '':'' @ quoted ''realtime'' @ '','' @ quoted ''payload''
       @ '':[7]}''"

definition raw_wrapped :: string where
  "raw_wrapped =
     ''{'' @ quoted ''source'' @ '':'' @ quoted ''realtime'' @ '','' @ quoted ''payload''
       @ '':{'' @ quoted ''raw'' @ '':'' @ quoted ''not-json'' @ ''}}''"

definition sample_stringify :: "json \<Rightarrow> error + string" where
  "sample_stringify v =
     (if 10000 < depth v then Inl (Error ''RangeError: Maximum call stack size exceeded'')
      else if v = JArr [JNum 7] then Inr ''[7]''
      else if v = wrap (JArr [JNum 7]) then Inr seven_wrapped
      else if v = wrap (JObj [(''raw'', JStr ''not-json'')]) then Inr raw_wrapped
      else Inr ''null'')"

section \<open>Properties\<close>

subsection \<open>The closed form of a broadcast\<close>

lemma broadcast_loop_closed_form:
  "broadcast_loop cs msg =
     (map (\<lambda>c. Send (ident c) msg (written c)) (filter (\<lambda>c. readyState c = OPEN) cs), None)"
  by (induction cs) (simp_all add: ws_send_def written_def)

lemma broadcast_closed_form:
  "broadcast msg s =
     (s\<lparr>trace := trace s @
           map (\<lambda>c. Send (ident c) msg (written c))
             (filter (\<lambda>c. readyState c = OPEN) (wsClients s))\<rparr>,
      None)"
  by (simp add: broadcast_def broadcast_loop_closed_form)

lemmas sample_sockets = open_ws_def closing_ws_def broken_ws_def written_def

subsection \<open>The closed forms of the two handlers\<close>

lemma new_calls_append [simp]:
  "new_calls s (s\<lparr>trace := trace s @ cs\<rparr>) = cs"
  by (simp add: new_calls_def)

lemma new_calls_same [simp]: "new_calls s s = []"
  by (simp add: new_calls_def)

lemma frames_append: "frames (xs @ ys) = frames xs @ frames ys"
  by (induction xs rule: frames.induct) simp_all

lemma frames_sends:
  "frames (map (\<lambda>c. Send (ident c) msg (written c)) cs) = replicate (length cs) msg"
  by (induction cs) simp_all

lemma settlements_append: "settlements (xs @ ys) = settlements xs @ settlements ys"
  by (simp add: settlements_def)

lemma settlements_sends:
  "settlements (map (\<lambda>c. Send (ident c) msg (written c)) cs) = []"
  by (induction cs) (simp_all add: settlements_def)

lemma consumer_closed_form:
  "consumer toString parse stringify (Some m) s =
     (case stringify (wrap (payload_of parse (toString (content m)))) of
        Inl e \<Rightarrow> s\<lparr>trace := trace s @ [Nack (deliveryTag m) False False]\<rparr>
      | Inr text \<Rightarrow>
          s\<lparr>trace := trace s
               @ map (\<lambda>c. Send (ident c) text (written c))
                   (filter (\<lambda>c. readyState c = OPEN) (wsClients s))
               @ [Ack (deliveryTag m)]\<rparr>)"
  by (simp add: consumer_def broadcast_closed_form nack_dropped_def Let_def split: sum.splits)

lemma on_message_closed_form:
  "on_message parse stringify message s =
     (case parse message of
        None \<Rightarrow> (s, None)
      | Some v \<Rightarrow>
          (case stringify v of
             Inl e \<Rightarrow> (s, None)
           | Inr text \<Rightarrow>
               (s\<lparr>trace := trace s @
                     map (\<lambda>c. Send (ident c) text (written c))
                       (filter (\<lambda>c. readyState c = OPEN) (wsClients s))\<rparr>,
                None)))"
  by (simp add: on_message_def broadcast_closed_form split: option.splits sum.splits)

subsection \<open>The samples of the built-ins\<close>

lemma depth_nest: "depth (nest n) = Suc n"
  by (induction n) simp_all

lemma depth_wrap: "depth (wrap v) = Suc (depth v)"
  by (simp add: wrap_def)

lemma sample_parse_brackets: "sample_parse (brackets n) = Some (nest n)"
proof -
  have ne: "brackets n \<noteq> ''[7]''"
    by (cases n) (simp_all add: brackets_def)
  have "takeWhile (\<lambda>c. c = CHR ''['') (brackets n) = replicate (Suc n) CHR ''[''"
    unfolding brackets_def
    by (subst takeWhile_append2) auto
  then have len: "length (takeWhile (\<lambda>c. c = CHR ''['') (brackets n)) = Suc n"
    by simp
  have "brackets n = replicate (Suc n) CHR ''['' @ replicate (Suc n) CHR '']''"
    by (simp only: brackets_def)
  with ne len show ?thesis
    by (simp only: sample_parse_def Let_def if_False if_True zero_less_Suc diff_Suc_1 simp_thms)
qed

lemma sample_stringify_deep:
  "10000 < depth v \<Longrightarrow>
     sample_stringify v = Inl (Error ''RangeError: Maximum call stack size exceeded'')"
  by (simp add: sample_stringify_def)

lemma sample_parse_not_json: "sample_parse ''not-json'' = None"
  by (simp add: sample_parse_def)

lemma sample_parse_seven: "sample_parse ''[7]'' = Some (JArr [JNum 7])"
  by (simp add: sample_parse_def)

lemma sample_stringify_seven: "sample_stringify (JArr [JNum 7]) = Inr ''[7]''"
  by (simp add: sample_stringify_def)

lemma sample_stringify_raw:
  "sample_stringify (wrap (JObj [(''raw'', JStr ''not-json'')])) =
     Inr raw_wrapped"
  by (simp add: sample_stringify_def wrap_def)

subsection \<open>The heartbeat\<close>

text \<open>
  C1. The claim is that a tick terminates and removes every socket whose flag is false and
  pings every socket whose flag is true, whatever its position. The callback is evaluated
  on a registry of three sockets, the first two with the flag false and the third with the
  flag true: it terminates the first socket, which becomes \<^verbatim>\<open>CLOSING\<close>, and returns. The
  second socket is not terminated, the third keeps its flag and gets no ping; after the
  close event of the first socket the second one is still registered.
\<close>

theorem heartbeat_stops_at_first_dead:
  "heartbeat \<lparr>wsClients = [open_ws 1 False, open_ws 2 False, open_ws 3 True], trace = []\<rparr>
     = \<lparr>wsClients = [closing_ws 1 False, open_ws 2 False, open_ws 3 True],
        trace = [Terminate 1]\<rparr>
   \<and> on_close 1
       (heartbeat \<lparr>wsClients = [open_ws 1 False, open_ws 2 False, open_ws 3 True], trace = []\<rparr>)
     = \<lparr>wsClients = [open_ws 2 False, open_ws 3 True], trace = [Terminate 1]\<rparr>"
  by (simp add: heartbeat_def on_close_def open_ws_def closing_ws_def ws_terminate_def)

subsection \<open>broadcast\<close>

text \<open>
  C2. For every registry and every message, a broadcast calls \<^verbatim>\<open>send\<close> with the message
  once on every socket of the snapshot that is open, in registry order, and on no other
  socket; no exception leaves the call. A socket that is not open is skipped, and a socket
  on which the write fails does not keep the later sockets from their frame: every open
  socket whose write succeeds has the message delivered.
\<close>

theorem broadcast_best_effort:
  "broadcast msg s =
     (s\<lparr>trace := trace s @
           map (\<lambda>c. Send (ident c) msg (written c))
             (filter (\<lambda>c. readyState c = OPEN) (wsClients s))\<rparr>,
      None)
   \<and> snd (broadcast msg s) = None
   \<and> (\<forall>c\<in>set (wsClients s). readyState c = OPEN \<and> writeError c = None \<longrightarrow>
         Send (ident c) msg Delivered \<in> set (new_calls s (fst (broadcast msg s))))
   \<and> frames (new_calls s (fst (broadcast msg s)))
       = replicate (length (filter (\<lambda>c. readyState c = OPEN) (wsClients s))) msg"
proof -
  have "Send (ident c) msg Delivered \<in> set (new_calls s (fst (broadcast msg s)))"
    if "c \<in> set (wsClients s)" and "readyState c = OPEN" and "writeError c = None" for c
  proof -
    from that have "written c = Delivered" by (simp add: written_def)
    with that(1,2) show ?thesis
      by (force simp: broadcast_closed_form)
  qed
  then show ?thesis
    by (simp add: broadcast_closed_form frames_sends)
qed

text \<open>
  C2, an instance: an open socket, a closing one, an open one on which the write fails and
  another open one. The closing socket gets no call, the failed write is passed over, and
  both healthy sockets have the message.
\<close>

theorem broadcast_best_effort_witness:
  "readyState (open_ws 1 True) = OPEN \<and> writeError (open_ws 1 True) = None
   \<and> broadcast ''m''
       \<lparr>wsClients = [open_ws 1 True, closing_ws 2 True, broken_ws 3, open_ws 4 True], trace = []\<rparr>
     = (\<lparr>wsClients = [open_ws 1 True, closing_ws 2 True, broken_ws 3, open_ws 4 True],
         trace = [Send 1 ''m'' Delivered, Send 3 ''m'' (Lost (Error ''EPIPE'')),
                  Send 4 ''m'' Delivered]\<rparr>, None)"
  using broadcast_best_effort
    [of "''m''"
      "\<lparr>wsClients = [open_ws 1 True, closing_ws 2 True, broken_ws 3, open_ws 4 True], trace = []\<rparr>"]
  by (simp add: sample_sockets)

text \<open>
  C3, as amended. A broadcast leaves the registry as it was: a socket that did not take the
  message stays registered until its close event (\<open>on_close\<close>) removes it.
\<close>

theorem broadcast_keeps_registry:
  "wsClients (fst (broadcast msg s)) = wsClients s"
  by (simp add: broadcast_closed_form)

text \<open>C3, an instance of the amended claim.\<close>

theorem broadcast_keeps_registry_witness:
  "wsClients (fst (broadcast ''m'' \<lparr>wsClients = [broken_ws 1, closing_ws 2 True], trace = []\<rparr>))
     = [broken_ws 1, closing_ws 2 True]"
  using broadcast_keeps_registry
    [of "''m''" "\<lparr>wsClients = [broken_ws 1, closing_ws 2 True], trace = []\<rparr>"]
  by simp

text \<open>
  C3 as stated fails: the second socket is closing, the broadcast makes no call on it, and
  it is still in the registry afterwards.
\<close>

theorem broadcast_keeps_closed_counterexample:
  "readyState (closing_ws 2 True) \<noteq> OPEN
   \<and> new_calls \<lparr>wsClients = [open_ws 1 True, closing_ws 2 True], trace = []\<rparr>
       (fst (broadcast ''m'' \<lparr>wsClients = [open_ws 1 True, closing_ws 2 True], trace = []\<rparr>))
       = [Send 1 ''m'' Delivered]
   \<and> wsClients
       (fst (broadcast ''m'' \<lparr>wsClients = [open_ws 1 True, closing_ws 2 True], trace = []\<rparr>))
       = [open_ws 1 True, closing_ws 2 True]"
  by (simp add: broadcast_def ws_send_def open_ws_def closing_ws_def new_calls_def)

subsection \<open>connectToRabbit\<close>

text \<open>One turn of the loop, by the outcome of the attempt.\<close>

lemma connect_loop_fail_last:
  "f (a + 1) = Inl err \<Longrightarrow> is_last (a + 1) mx \<Longrightarrow>
     connect_loop mx f rnd a d sl = Some (Inl err, a + 1, sl)"
  by (subst connect_loop.simps) simp

lemma connect_loop_fail_retry:
  "f (a + 1) = Inl err \<Longrightarrow> \<not> is_last (a + 1) mx \<Longrightarrow>
     connect_loop mx f rnd a d sl =
       connect_loop mx f rnd (a + 1) (next_delay d)
         (sl @ [plus_jitter d (jitter_of (rnd (a + 1)))])"
  by (subst connect_loop.simps) simp

lemma connect_loop_success:
  "f (a + 1) = Inr res \<Longrightarrow> connect_loop mx f rnd a d sl = Some (Inr res, a + 1, sl)"
  by (subst connect_loop.simps) simp

text \<open>With an integer bound the loop returns, and it only adds to the waits.\<close>

lemma connect_loop_returns:
  "\<exists>r n ext. connect_loop (Num m) f rnd a d sl = Some (r, n, sl @ ext)"
proof (induction "nat m - a" arbitrary: a d sl)
  case 0
  then have last: "is_last (a + 1) (Num m)" by simp
  show ?case
  proof (cases "f (a + 1)")
    case (Inl err)
    with last show ?thesis by (simp add: connect_loop_fail_last)
  next
    case (Inr res)
    then show ?thesis by (simp add: connect_loop_success)
  qed
next
  case (Suc k)
  show ?case
  proof (cases "f (a + 1)")
    case (Inr res)
    then show ?thesis by (simp add: connect_loop_success)
  next
    case (Inl err)
    show ?thesis
    proof (cases "is_last (a + 1) (Num m)")
      case True
      with Inl show ?thesis by (simp add: connect_loop_fail_last)
    next
      case False
      from Suc.hyps(2) have "k = nat m - (a + 1)" by simp
      from Suc.hyps(1) [OF this] obtain r n ext where
        "connect_loop (Num m) f rnd (a + 1) (next_delay d)
           (sl @ [plus_jitter d (jitter_of (rnd (a + 1)))])
         = Some (r, n, (sl @ [plus_jitter d (jitter_of (rnd (a + 1)))]) @ ext)"
        by blast
      with Inl False show ?thesis
        by (simp add: connect_loop_fail_retry)
    qed
  qed
qed

text \<open>The loop when every attempt fails: it stops at attempt \<open>max 1 MAX_RETRIES\<close>.\<close>

lemma connect_loop_all_fail:
  assumes "\<forall>k. isl (f k)"
  shows "\<exists>sl'. connect_loop (Num m) f rnd a d sl
                 = Some (f (max (a + 1) (nat m)), max (a + 1) (nat m), sl')
           \<and> length sl' = length sl + (max (a + 1) (nat m) - (a + 1))"
proof (induction "nat m - a" arbitrary: a d sl)
  case 0
  from assms have "isl (f (a + 1))" by simp
  then obtain err where err: "f (a + 1) = Inl err"
    by (auto simp: isl_def)
  from 0 have last: "is_last (a + 1) (Num m)" and mx: "max (a + 1) (nat m) = a + 1"
    by simp_all
  from err last show ?case
    by (simp add: connect_loop_fail_last mx)
next
  case (Suc k)
  from assms have "isl (f (a + 1))" by simp
  then obtain err where err: "f (a + 1) = Inl err"
    by (auto simp: isl_def)
  show ?case
  proof (cases "is_last (a + 1) (Num m)")
    case True
    then have mx: "max (a + 1) (nat m) = a + 1" by simp
    from err True show ?thesis
      by (simp add: connect_loop_fail_last mx)
  next
    case False
    then have mx: "max (a + 1 + 1) (nat m) = max (a + 1) (nat m)" "a + 1 < max (a + 1) (nat m)"
      by simp_all
    from Suc.hyps(2) have "k = nat m - (a + 1)" by simp
    from Suc.hyps(1) [OF this] obtain sl' where
      "connect_loop (Num m) f rnd (a + 1) (next_delay d)
         (sl @ [plus_jitter d (jitter_of (rnd (a + 1)))])
       = Some (f (max (a + 1 + 1) (nat m)), max (a + 1 + 1) (nat m), sl')"
      "length sl' = length (sl @ [plus_jitter d (jitter_of (rnd (a + 1)))])
         + (max (a + 1 + 1) (nat m) - (a + 1 + 1))"
      by blast
    with err False mx show ?thesis
      by (auto simp: connect_loop_fail_retry)
  qed
qed

text \<open>
  With \<^verbatim>\<open>NaN\<close> for the bound no attempt is the last one: when every attempt fails the
  loop does not return.
\<close>

lemma connect_loop_unbounded:
  assumes "connect_loop mx f rnd a d sl = Some y"
  shows "mx = NaN \<longrightarrow> (\<exists>k. \<not> isl (f k))"
proof (rule connect_loop.raw_induct
    [where P = "\<lambda>mx f rnd a d sl y. mx = NaN \<longrightarrow> (\<exists>k. \<not> isl (f k))", OF _ assms])
  fix loop :: "number \<Rightarrow> (nat \<Rightarrow> error + 'a) \<Rightarrow> (nat \<Rightarrow> real) \<Rightarrow> nat \<Rightarrow> number \<Rightarrow> number list
     \<Rightarrow> ((error + 'a) \<times> nat \<times> number list) option"
  fix mx f rnd a d sl y
  assume IH: "\<And>mx f rnd a d sl y. loop mx f rnd a d sl = Some y \<Longrightarrow>
                mx = NaN \<longrightarrow> (\<exists>k. \<not> isl (f k))"
    and body: "(case f (a + 1) of
                  Inl err \<Rightarrow>
                    if is_last (a + 1) mx then Some (Inl err, a + 1, sl)
                    else loop mx f rnd (a + 1) (next_delay d)
                           (sl @ [plus_jitter d (jitter_of (rnd (a + 1)))])
                | Inr res \<Rightarrow> Some (Inr res, a + 1, sl)) = Some y"
  show "mx = NaN \<longrightarrow> (\<exists>k. \<not> isl (f k))"
  proof (cases "f (a + 1)")
    case (Inr res)
    then have "\<not> isl (f (a + 1))" by simp
    then show ?thesis by blast
  next
    case (Inl err)
    show ?thesis
    proof
      assume nan: "mx = NaN"
      with Inl body have
        "loop mx f rnd (a + 1) (next_delay d) (sl @ [plus_jitter d (jitter_of (rnd (a + 1)))])
           = Some y"
        by simp
      from IH [OF this] nan show "\<exists>k. \<not> isl (f k)" by blast
    qed
  qed
qed

lemma connect_loop_NaN_None:
  assumes "\<forall>k. isl (f k)"
  shows "connect_loop NaN f rnd a d sl = None"
proof (cases "connect_loop NaN f rnd a d sl")
  case None
  then show ?thesis .
next
  case (Some y)
  from connect_loop_unbounded [OF Some] assms show ?thesis by simp
qed

text \<open>The \<open>N\<close>-th wait, when the attempts up to the \<open>N\<close>-th fail.\<close>

lemma connect_loop_wait:
  assumes "a < N" and "int N < m" and "\<forall>k. a < k \<and> k \<le> N \<longrightarrow> isl (f k)"
  shows "\<exists>r n sl'. connect_loop (Num m) f rnd a (Num d) sl = Some (r, n, sl')
       \<and> length sl + (N - a) \<le> length sl'
       \<and> sl' ! (length sl + (N - a - 1))
           = Num (((\<lambda>x. min (x * 2) 30000) ^^ (N - a - 1)) d + jitter_of (rnd N))"
  using assms
proof (induction "N - a" arbitrary: a d sl)
  case 0
  then show ?case by simp
next
  case (Suc j)
  from Suc.prems have "isl (f (a + 1))" by simp
  then obtain err where err: "f (a + 1) = Inl err"
    by (auto simp: isl_def)
  from Suc.prems have notlast: "\<not> is_last (a + 1) (Num m)" by simp
  let ?w = "Num (d + jitter_of (rnd (a + 1)))"
  let ?rec = "connect_loop (Num m) f rnd (a + 1) (Num (min (d * 2) 30000)) (sl @ [?w])"
  have unfold: "connect_loop (Num m) f rnd a (Num d) sl = ?rec"
    using err notlast by (simp add: connect_loop_fail_retry)
  show ?case
  proof (cases "a + 1 = N")
    case True
    obtain r n ext where ext: "?rec = Some (r, n, (sl @ [?w]) @ ext)"
      using connect_loop_returns by blast
    from True ext show ?thesis
      by (simp add: unfold nth_append)
  next
    case False
    with Suc.prems have lt: "a + 1 < N" by simp
    have fails: "\<forall>k. a + 1 < k \<and> k \<le> N \<longrightarrow> isl (f k)"
      using Suc.prems by simp
    from Suc.hyps(2) have j: "j = N - (a + 1)" by simp
    from Suc.hyps(1) [OF j lt Suc.prems(2) fails, of "min (d * 2) 30000" "sl @ [?w]"]
    obtain r n sl' where ih:
      "?rec = Some (r, n, sl')"
      "length (sl @ [?w]) + (N - (a + 1)) \<le> length sl'"
      "sl' ! (length (sl @ [?w]) + (N - (a + 1) - 1))
         = Num (((\<lambda>x. min (x * 2) 30000) ^^ (N - (a + 1) - 1)) (min (d * 2) 30000)
                + jitter_of (rnd N))"
      by blast
    from lt have "0 < N - a - 1" by simp
    then obtain i where i0: "N - a - 1 = Suc i"
      by (cases "N - a - 1") auto
    then have i: "N - a - 1 = Suc i" "N - (a + 1) - 1 = i"
      by simp_all
    from lt have idx: "length (sl @ [?w]) + (N - (a + 1) - 1) = length sl + (N - a - 1)"
      by simp
    have swap: "((\<lambda>x. min (x * 2) 30000) ^^ (N - a - 1)) d
                  = ((\<lambda>x. min (x * 2) 30000) ^^ (N - (a + 1) - 1)) (min (d * 2) 30000)"
      by (simp only: i funpow_Suc_right o_apply)
    from ih(2) lt have len: "length sl + (N - a) \<le> length sl'"
      by simp
    from ih(3) have "sl' ! (length sl + (N - a - 1))
        = Num (((\<lambda>x. min (x * 2) 30000) ^^ (N - a - 1)) d + jitter_of (rnd N))"
      by (simp only: idx swap)
    with len ih(1) show ?thesis
      by (simp only: unfold) blast
  qed
qed

lemma doubling_closed_form:
  "((\<lambda>x. min (x * 2) 30000) ^^ Suc k) (i::int) = min (i * 2 ^ Suc k) 30000"
  by (induction k) (simp_all add: min_def)

lemma jitter_range:
  assumes "0 \<le> r" and "r < 1"
  shows "0 \<le> jitter_of r" and "jitter_of r < 300"
proof -
  from assms(1) show "0 \<le> jitter_of r" by (simp add: jitter_of_def)
  from assms(2) have "r * 300 < 300" by simp
  then show "jitter_of r < 300" by (simp add: jitter_of_def floor_less_iff)
qed

text \<open>
  C4, as amended. When the first \<open>N\<close> attempts fail and \<open>N\<close> is below the retry bound,
  there is an \<open>N\<close>-th wait; the first wait is the configured initial delay plus jitter, and
  for \<open>N \<ge> 2\<close> the \<open>N\<close>-th wait is \<open>min (initial * 2^(N-1)) 30000\<close> plus jitter. So the
  formula \<open>min (initial * 2^(N-1)) 30000 + jitter\<close> holds for every \<open>N\<close> when the initial
  delay is at most 30000. The jitter of a draw in \<open>[0, 1)\<close> is an integer in \<open>[0, 300)\<close>.
\<close>

theorem backoff_wait:
  assumes "1 \<le> N" and "int N < max_retries"
    and "\<forall>k. 1 \<le> k \<and> k \<le> N \<longrightarrow> isl (try_connect connect createChannel k)"
    and "0 \<le> random N \<and> random N < 1"
  shows "\<exists>r attempts slept.
           connectToRabbit (Num max_retries) (Num initial) connect createChannel random
             = Some (r, attempts, slept)
           \<and> N \<le> length slept
           \<and> slept ! (N - 1)
               = Num ((if N = 1 then initial else backoff initial N) + jitter_of (random N))
           \<and> (initial \<le> 30000 \<longrightarrow>
                slept ! (N - 1) = Num (backoff initial N + jitter_of (random N)))
           \<and> 0 \<le> jitter_of (random N) \<and> jitter_of (random N) < 300"
proof -
  from assms have fails: "\<forall>k. 0 < k \<and> k \<le> N \<longrightarrow> isl (try_connect connect createChannel k)"
    by (simp add: Suc_le_eq)
  from assms(1) have pos: "0 < N" by simp
  from connect_loop_wait [OF pos assms(2) fails, where rnd = random and d = initial and sl = "[]"]
  obtain r n sl' where run:
    "connect_loop (Num max_retries) (try_connect connect createChannel) random 0 (Num initial) []
       = Some (r, n, sl')"
    and len: "N \<le> length sl'"
    and nth: "sl' ! (N - 1)
         = Num (((\<lambda>x. min (x * 2) 30000) ^^ (N - 1)) initial + jitter_of (random N))"
    by auto
  have delay: "((\<lambda>x. min (x * 2) 30000) ^^ (N - 1)) initial
                 = (if N = 1 then initial else backoff initial N)"
  proof (cases "N = 1")
    case True
    then show ?thesis by simp
  next
    case False
    with pos have "0 < N - 1" by simp
    then obtain k where k: "N - 1 = Suc k"
      by (cases "N - 1") auto
    with False show ?thesis
      by (simp only: k doubling_closed_form backoff_def if_False)
  qed
  have small: "initial \<le> 30000 \<Longrightarrow> (if N = 1 then initial else backoff initial N) = backoff initial N"
    by (simp add: backoff_def)
  from run len nth delay small jitter_range [of "random N"] assms(4) show ?thesis
    by (simp add: connectToRabbit_def)
qed

text \<open>
  C4, an instance: three attempts allowed, initial delay 1000, every draw one half; the
  second wait is 2000 + 150.
\<close>

theorem backoff_wait_witness:
  "(1::nat) \<le> 2 \<and> int 2 < 3
   \<and> isl (try_connect refused channel_opens 1) \<and> isl (try_connect refused channel_opens 2)
   \<and> 0 \<le> draw_half 2 \<and> draw_half 2 < 1
   \<and> (\<exists>r attempts slept.
         connectToRabbit (Num 3) (Num 1000) refused channel_opens draw_half
           = Some (r, attempts, slept)
         \<and> 2 \<le> length slept
         \<and> slept ! (2 - 1) = Num (backoff 1000 2 + jitter_of (draw_half 2)))
   \<and> backoff 1000 2 = 2000 \<and> jitter_of (draw_half 2) = 150"
proof -
  have h1: "(1::nat) \<le> 2" and h2: "int 2 < 3" by simp_all
  have h3: "\<forall>k. 1 \<le> k \<and> k \<le> 2 \<longrightarrow> isl (try_connect refused channel_opens k)"
    by (simp add: try_connect_def refused_def)
  have h4: "0 \<le> draw_half 2 \<and> draw_half 2 < 1" by (simp add: draw_half_def)
  have vals: "backoff 1000 2 = 2000" "jitter_of (draw_half 2) = 150"
    by (simp_all add: backoff_def jitter_of_def draw_half_def)
  from backoff_wait [where N = 2 and max_retries = 3 and initial = 1000 and connect = refused
      and createChannel = channel_opens and random = draw_half, OF h1 h2 h3 h4]
  obtain r attempts slept where
    "connectToRabbit (Num 3) (Num 1000) refused channel_opens draw_half
       = Some (r, attempts, slept)"
    "2 \<le> length slept"
    "slept ! (2 - 1) = Num (backoff 1000 2 + jitter_of (draw_half 2))"
    by auto
  then have "\<exists>r attempts slept.
         connectToRabbit (Num 3) (Num 1000) refused channel_opens draw_half
           = Some (r, attempts, slept)
         \<and> 2 \<le> length slept
         \<and> slept ! (2 - 1) = Num (backoff 1000 2 + jitter_of (draw_half 2))"
    by blast
  with h3 h4 vals show ?thesis
    by simp
qed

text \<open>
  C4 as stated fails for an initial delay above the ceiling: with 40000 configured and a
  draw of 0, the first wait is 40000, where the formula gives \<open>min 40000 30000 + 0\<close>, and
  less than 40000 for any jitter below 300.
\<close>

theorem backoff_first_wait_counterexample:
  "(1::nat) \<le> 1 \<and> int 1 < 3 \<and> isl (try_connect refused channel_opens 1)
   \<and> connectToRabbit (Num 3) (Num 40000) refused channel_opens draw_zero
       = Some (Inl (Error ''ECONNREFUSED''), 3, [Num 40000, Num 30000])
   \<and> [Num 40000, Num 30000] ! (1 - 1) = Num 40000
   \<and> backoff 40000 1 + jitter_of (draw_zero 1) = 30000
   \<and> backoff 40000 1 + 300 \<le> 40000"
  by (intro conjI; code_simp)

text \<open>
  C5, as amended. When every attempt fails and \<^verbatim>\<open>MAX_RETRIES\<close> is an integer, the call
  makes \<open>max 1 MAX_RETRIES\<close> attempts: exactly \<^verbatim>\<open>MAX_RETRIES\<close> when that is at least 1, and
  one attempt when it is zero or negative. It then throws the error of the last attempt; it
  has slept once between two attempts, so no retry follows the last one. (When
  \<^verbatim>\<open>MAX_RETRIES\<close> is \<^verbatim>\<open>NaN\<close>, no attempt is the last one and the call does not return.)
\<close>

theorem retry_exhaustion:
  assumes "\<forall>k. isl (try_connect connect createChannel k)"
  shows "(\<forall>m. max_retries = Num m \<longrightarrow>
            (\<exists>slept.
               connectToRabbit max_retries initial connect createChannel random
                 = Some (try_connect connect createChannel (max 1 (nat m)), max 1 (nat m), slept)
               \<and> isl (try_connect connect createChannel (max 1 (nat m)))
               \<and> length slept = max 1 (nat m) - 1)
            \<and> (1 \<le> m \<longrightarrow> int (max 1 (nat m)) = m))
       \<and> (max_retries = NaN \<longrightarrow>
            connectToRabbit max_retries initial connect createChannel random = None)"
proof (intro conjI allI impI)
  fix m
  assume mx: "max_retries = Num m"
  from connect_loop_all_fail [OF assms, where m = m and rnd = random and a = 0
      and d = initial and sl = "[]"]
  obtain sl' where
    "connect_loop (Num m) (try_connect connect createChannel) random 0 initial []
       = Some (try_connect connect createChannel (max (0 + 1) (nat m)), max (0 + 1) (nat m), sl')"
    "length sl' = length ([]::number list) + (max (0 + 1) (nat m) - (0 + 1))"
    by blast
  with assms mx show "\<exists>slept.
               connectToRabbit max_retries initial connect createChannel random
                 = Some (try_connect connect createChannel (max 1 (nat m)), max 1 (nat m), slept)
               \<and> isl (try_connect connect createChannel (max 1 (nat m)))
               \<and> length slept = max 1 (nat m) - 1"
    by (simp add: connectToRabbit_def)
next
  fix m :: int
  assume "1 \<le> m"
  then show "int (max 1 (nat m)) = m" by simp
next
  assume "max_retries = NaN"
  with assms show "connectToRabbit max_retries initial connect createChannel random = None"
    by (simp add: connectToRabbit_def connect_loop_NaN_None)
qed

text \<open>
  C5, two instances: a broker that refuses every connection, with three attempts allowed
  and with a bound that is not a number.
\<close>

theorem retry_exhaustion_witness:
  "(\<forall>k. isl (try_connect refused channel_opens k))
   \<and> (\<exists>slept. connectToRabbit (Num 3) (Num 1000) refused channel_opens draw_half
         = Some (Inl (Error ''ECONNREFUSED''), 3, slept) \<and> length slept = 2)
   \<and> connectToRabbit NaN (Num 1000) refused channel_opens draw_half = None"
proof -
  have h: "\<forall>k. isl (try_connect refused channel_opens k)"
    by (simp add: try_connect_def refused_def)
  from retry_exhaustion [OF h, of "Num 3" "Num 1000" draw_half]
    retry_exhaustion [OF h, of NaN "Num 1000" draw_half] h
  show ?thesis
    by (simp add: try_connect_def refused_def)
qed

text \<open>
  C5 as stated fails when \<^verbatim>\<open>MAX_RETRIES\<close> is 0: the loop makes one attempt before it
  compares the count with the bound, so the attempt count is 1 and exceeds the bound.
\<close>

theorem retry_zero_counterexample:
  "isl (try_connect refused channel_opens 1)
   \<and> connectToRabbit (Num 0) (Num 1000) refused channel_opens draw_zero
       = Some (Inl (Error ''ECONNREFUSED''), 1, [])
   \<and> (0::int) < int 1"
  by (intro conjI; code_simp)

subsection \<open>The consumer callback\<close>

text \<open>
  C6, as amended. For a delivery with content \<open>c\<close>, let \<open>p\<close> be the parse of the decoded
  content when that is JSON and \<^verbatim>\<open>{"raw": c}\<close> when it is not. When \<^verbatim>\<open>JSON.stringify\<close>
  serializes \<^verbatim>\<open>{"source":"realtime","payload":p}\<close>, the consumer sends exactly that
  serialization to every open socket and then acknowledges the message. When
  \<^verbatim>\<open>JSON.stringify\<close> throws, nothing is broadcast and the message is negatively
  acknowledged without requeue.
\<close>

theorem consumer_wraps:
  "(\<forall>frame.
       stringify (JObj [(''source'', JStr ''realtime''),
          (''payload'', case parse (toString (content m)) of
                          Some v \<Rightarrow> v
                        | None \<Rightarrow> JObj [(''raw'', JStr (toString (content m)))])]) = Inr frame
       \<longrightarrow> new_calls s (consumer toString parse stringify (Some m) s) =
             map (\<lambda>c. Send (ident c) frame (written c))
               (filter (\<lambda>c. readyState c = OPEN) (wsClients s))
             @ [Ack (deliveryTag m)])
   \<and> (\<forall>e.
       stringify (JObj [(''source'', JStr ''realtime''),
          (''payload'', case parse (toString (content m)) of
                          Some v \<Rightarrow> v
                        | None \<Rightarrow> JObj [(''raw'', JStr (toString (content m)))])]) = Inl e
       \<longrightarrow> new_calls s (consumer toString parse stringify (Some m) s) =
             [Nack (deliveryTag m) False False])"
  by (simp add: consumer_closed_form wrap_def payload_of_def)

text \<open>
  C6, an instance: content that is not JSON, an open socket and a closing one. The content
  is wrapped, sent to the open socket and acknowledged.
\<close>

theorem consumer_wraps_witness:
  "sample_parse (ascii_toString (content \<lparr>deliveryTag = 1, content = ''not-json''\<rparr>)) = None
   \<and> sample_stringify (JObj [(''source'', JStr ''realtime''),
        (''payload'', JObj [(''raw'', JStr ''not-json'')])])
     = Inr raw_wrapped
   \<and> new_calls \<lparr>wsClients = [open_ws 1 True, closing_ws 2 True], trace = []\<rparr>
       (consumer ascii_toString sample_parse sample_stringify
          (Some \<lparr>deliveryTag = 1, content = ''not-json''\<rparr>)
          \<lparr>wsClients = [open_ws 1 True, closing_ws 2 True], trace = []\<rparr>)
     = [Send 1 raw_wrapped Delivered, Ack 1]"
proof -
  have p: "sample_parse (ascii_toString (content \<lparr>deliveryTag = 1, content = ''not-json''\<rparr>)) = None"
    by (simp add: ascii_toString_def sample_parse_not_json)
  have f: "sample_stringify (JObj [(''source'', JStr ''realtime''),
        (''payload'', JObj [(''raw'', JStr ''not-json'')])])
     = Inr raw_wrapped"
    using sample_stringify_raw by (simp add: wrap_def)
  from consumer_wraps [where stringify = sample_stringify and parse = sample_parse
      and toString = ascii_toString and m = "\<lparr>deliveryTag = 1, content = ''not-json''\<rparr>"
      and s = "\<lparr>wsClients = [open_ws 1 True, closing_ws 2 True], trace = []\<rparr>"] p f
  show ?thesis
    by (simp add: sample_sockets ascii_toString_def)
qed

text \<open>
  C6 as stated fails for content that parses to a value too deep for the serializer: an
  empty array inside 100000 arrays. \<^verbatim>\<open>JSON.stringify\<close> throws on the wrapper, nothing is
  broadcast, and the message is negatively acknowledged, not acknowledged.
\<close>

theorem consumer_unserializable_counterexample:
  "sample_parse (ascii_toString (content \<lparr>deliveryTag = 1, content = brackets 100000\<rparr>))
     = Some (nest 100000)
   \<and> sample_stringify (wrap (nest 100000))
     = Inl (Error ''RangeError: Maximum call stack size exceeded'')
   \<and> consumer ascii_toString sample_parse sample_stringify
       (Some \<lparr>deliveryTag = 1, content = brackets 100000\<rparr>)
       \<lparr>wsClients = [open_ws 1 True], trace = []\<rparr>
     = \<lparr>wsClients = [open_ws 1 True], trace = [Nack 1 False False]\<rparr>"
proof -
  have p: "sample_parse (ascii_toString (content \<lparr>deliveryTag = 1, content = brackets 100000\<rparr>))
     = Some (nest 100000)"
    by (simp add: ascii_toString_def sample_parse_brackets)
  have f: "sample_stringify (wrap (nest 100000))
     = Inl (Error ''RangeError: Maximum call stack size exceeded'')"
    by (rule sample_stringify_deep) (simp add: depth_wrap depth_nest)
  from p f show ?thesis
    by (simp add: consumer_closed_form payload_of_def)
qed

text \<open>
  C8. For every delivered message exactly one call settles it: \<^verbatim>\<open>ack\<close> when the
  processing succeeds, and \<^verbatim>\<open>nack\<close> with requeue false when the processing throws, which
  it does when the serialization of the wrapper throws. Never both, never neither.
\<close>

theorem consumer_settles:
  "settlements (new_calls s (consumer toString parse stringify (Some m) s)) =
     (case stringify (wrap (payload_of parse (toString (content m)))) of
        Inr text \<Rightarrow> [Ack (deliveryTag m)]
      | Inl e \<Rightarrow> [Nack (deliveryTag m) False False])"
  by (simp add: consumer_closed_form settlements_append settlements_sends split: sum.splits)
     (simp add: settlements_def)

text \<open>
  C8, two instances: content that is not JSON is acknowledged; content whose wrapper cannot
  be serialized is negatively acknowledged without requeue.
\<close>

theorem consumer_settles_witness:
  "settlements
     (new_calls \<lparr>wsClients = [open_ws 1 True], trace = []\<rparr>
        (consumer ascii_toString sample_parse sample_stringify
           (Some \<lparr>deliveryTag = 1, content = ''not-json''\<rparr>)
           \<lparr>wsClients = [open_ws 1 True], trace = []\<rparr>))
     = [Ack 1]
   \<and> settlements
     (new_calls \<lparr>wsClients = [open_ws 1 True], trace = []\<rparr>
        (consumer ascii_toString sample_parse sample_stringify
           (Some \<lparr>deliveryTag = 2, content = brackets 100000\<rparr>)
           \<lparr>wsClients = [open_ws 1 True], trace = []\<rparr>))
     = [Nack 2 False False]"
proof -
  have f: "sample_stringify (wrap (nest 100000))
     = Inl (Error ''RangeError: Maximum call stack size exceeded'')"
    by (rule sample_stringify_deep) (simp add: depth_wrap depth_nest)
  from
    consumer_settles [of "\<lparr>wsClients = [open_ws 1 True], trace = []\<rparr>" ascii_toString
      sample_parse sample_stringify "\<lparr>deliveryTag = 1, content = ''not-json''\<rparr>"]
    consumer_settles [of "\<lparr>wsClients = [open_ws 1 True], trace = []\<rparr>" ascii_toString
      sample_parse sample_stringify "\<lparr>deliveryTag = 2, content = brackets 100000\<rparr>"]
    f
  show ?thesis
    by (simp add: payload_of_def ascii_toString_def sample_parse_not_json sample_parse_brackets
          sample_stringify_raw [unfolded wrap_def] wrap_def)
qed

subsection \<open>The message handler\<close>

text \<open>
  C7, as amended. No exception leaves the handler, and the registry is unchanged. A message
  that does not parse causes no call at all, and neither does one whose parsed value
  \<^verbatim>\<open>JSON.stringify\<close> cannot serialize. A message that parses to \<open>v\<close> and serializes is
  broadcast as the serialization of \<open>v\<close>, with no wrapping, to every open socket of the
  registry, the sender included.
\<close>

theorem on_message_relays:
  "snd (on_message parse stringify message s) = None
   \<and> wsClients (fst (on_message parse stringify message s)) = wsClients s
   \<and> (parse message = None \<longrightarrow> fst (on_message parse stringify message s) = s)
   \<and> (\<forall>v e. parse message = Some v \<and> stringify v = Inl e \<longrightarrow>
         fst (on_message parse stringify message s) = s)
   \<and> (\<forall>v text. parse message = Some v \<and> stringify v = Inr text \<longrightarrow>
         new_calls s (fst (on_message parse stringify message s)) =
           map (\<lambda>c. Send (ident c) text (written c))
             (filter (\<lambda>c. readyState c = OPEN) (wsClients s)))
   \<and> (\<forall>v text sender. parse message = Some v \<and> stringify v = Inr text
          \<and> sender \<in> set (wsClients s) \<and> readyState sender = OPEN \<longrightarrow>
         Send (ident sender) text (written sender)
           \<in> set (new_calls s (fst (on_message parse stringify message s))))"
  by (auto simp: on_message_closed_form split: option.splits sum.splits)

text \<open>
  C7, two instances: a message that parses goes to both open sockets; one that does not
  parse leaves the state as it was.
\<close>

theorem on_message_relays_witness:
  "sample_parse ''[7]'' = Some (JArr [JNum 7])
   \<and> sample_stringify (JArr [JNum 7]) = Inr ''[7]''
   \<and> new_calls \<lparr>wsClients = [open_ws 1 True, open_ws 2 True], trace = []\<rparr>
       (fst (on_message sample_parse sample_stringify ''[7]''
          \<lparr>wsClients = [open_ws 1 True, open_ws 2 True], trace = []\<rparr>))
     = [Send 1 ''[7]'' Delivered, Send 2 ''[7]'' Delivered]
   \<and> sample_parse ''hello'' = None
   \<and> fst (on_message sample_parse sample_stringify ''hello''
          \<lparr>wsClients = [open_ws 1 True, open_ws 2 True], trace = []\<rparr>)
     = \<lparr>wsClients = [open_ws 1 True, open_ws 2 True], trace = []\<rparr>"
proof -
  have h: "sample_parse ''hello'' = None"
    by (simp add: sample_parse_def)
  from
    on_message_relays [of sample_parse sample_stringify "''[7]''"
      "\<lparr>wsClients = [open_ws 1 True, open_ws 2 True], trace = []\<rparr>"]
    on_message_relays [of sample_parse sample_stringify "''hello''"
      "\<lparr>wsClients = [open_ws 1 True, open_ws 2 True], trace = []\<rparr>"]
    h
  show ?thesis
    by (simp add: sample_sockets sample_parse_seven sample_stringify_seven)
qed

text \<open>
  C7 as stated fails for a message that parses to a value too deep for the serializer: an
  empty array inside 100000 arrays parses, \<^verbatim>\<open>JSON.stringify\<close> throws inside the
  \<^verbatim>\<open>try\<close>, and nothing is sent to the open sockets, the sender among them.
\<close>

theorem on_message_unserializable_counterexample:
  "sample_parse (brackets 100000) = Some (nest 100000)
   \<and> sample_stringify (nest 100000)
       = Inl (Error ''RangeError: Maximum call stack size exceeded'')
   \<and> readyState (open_ws 1 True) = OPEN
   \<and> on_message sample_parse sample_stringify (brackets 100000)
       \<lparr>wsClients = [open_ws 1 True, open_ws 2 True], trace = []\<rparr>
     = (\<lparr>wsClients = [open_ws 1 True, open_ws 2 True], trace = []\<rparr>, None)"
proof -
  have f: "sample_stringify (nest 100000)
     = Inl (Error ''RangeError: Maximum call stack size exceeded'')"
    by (rule sample_stringify_deep) (simp add: depth_nest)
  then show ?thesis
    by (simp add: on_message_closed_form sample_parse_brackets open_ws_def)
qed

text \<open>
  C10. Every frame that the message handler or the consumer callback passes to a socket is
  the result of \<^verbatim>\<open>JSON.stringify\<close> on a JSON value, whatever the message or the queue
  content was (JSON or not). The heartbeat sends pings only, which carry no text.
\<close>

theorem frames_are_serialized:
  "(\<forall>f\<in>set (frames (new_calls s (fst (on_message parse stringify message s)))).
       \<exists>v. stringify v = Inr f)
   \<and> (\<forall>f\<in>set (frames (new_calls s (consumer toString parse stringify msg s))).
       \<exists>v. stringify v = Inr f)"
proof (intro conjI ballI)
  fix f
  assume f: "f \<in> set (frames (new_calls s (fst (on_message parse stringify message s))))"
  show "\<exists>v. stringify v = Inr f"
  proof (cases "parse message")
    case None
    with f show ?thesis by (simp add: on_message_closed_form)
  next
    case (Some v)
    show ?thesis
    proof (cases "stringify v")
      case (Inl e)
      with f Some show ?thesis by (simp add: on_message_closed_form)
    next
      case (Inr frame)
      with f Some have "f = frame"
        by (auto simp: on_message_closed_form frames_sends)
      with Inr show ?thesis by blast
    qed
  qed
next
  fix f
  assume f: "f \<in> set (frames (new_calls s (consumer toString parse stringify msg s)))"
  show "\<exists>v. stringify v = Inr f"
  proof (cases msg)
    case None
    with f show ?thesis by (simp add: consumer_def)
  next
    case (Some m)
    show ?thesis
    proof (cases "stringify (wrap (payload_of parse (toString (content m))))")
      case (Inl e)
      with f Some show ?thesis by (simp add: consumer_closed_form)
    next
      case (Inr frame)
      with f Some have "f = frame"
        by (auto simp: consumer_closed_form frames_append frames_sends)
      with Inr show ?thesis by blast
    qed
  qed
qed

text \<open>C10, an instance: queue content that is not JSON, one open socket.\<close>

theorem frames_are_serialized_witness:
  "frames
     (new_calls \<lparr>wsClients = [open_ws 1 True], trace = []\<rparr>
        (consumer ascii_toString sample_parse sample_stringify
           (Some \<lparr>deliveryTag = 1, content = ''not-json''\<rparr>)
           \<lparr>wsClients = [open_ws 1 True], trace = []\<rparr>))
     = [raw_wrapped]
   \<and> (\<exists>v. sample_stringify v = Inr raw_wrapped)"
proof -
  have ev: "frames
     (new_calls \<lparr>wsClients = [open_ws 1 True], trace = []\<rparr>
        (consumer ascii_toString sample_parse sample_stringify
           (Some \<lparr>deliveryTag = 1, content = ''not-json''\<rparr>)
           \<lparr>wsClients = [open_ws 1 True], trace = []\<rparr>))
     = [raw_wrapped]"
    by (simp add: consumer_closed_form payload_of_def ascii_toString_def sample_parse_not_json
          sample_stringify_raw [unfolded wrap_def] wrap_def frames_append open_ws_def
          written_def new_calls_def)
  from frames_are_serialized
    [of "\<lparr>wsClients = [open_ws 1 True], trace = []\<rparr>" sample_parse sample_stringify "''[7]''"
      ascii_toString "Some \<lparr>deliveryTag = 1, content = ''not-json''\<rparr>"]
  have "\<forall>f\<in>set (frames
     (new_calls \<lparr>wsClients = [open_ws 1 True], trace = []\<rparr>
        (consumer ascii_toString sample_parse sample_stringify
           (Some \<lparr>deliveryTag = 1, content = ''not-json''\<rparr>)
           \<lparr>wsClients = [open_ws 1 True], trace = []\<rparr>))). \<exists>v. sample_stringify v = Inr f"
    by blast
  with ev show ?thesis by simp
qed

subsection \<open>Startup\<close>

lemma startup_step_inv:
  assumes "startup_step e s = Some s'" and "startup_inv s"
  shows "startup_inv s'"
proof (cases e)
  case ClientConnects
  with assms show ?thesis
    by (auto simp: startup_inv_def split: if_splits phase.splits)
next
  case ConnectReturns
  with assms show ?thesis
    by (auto simp: startup_inv_def split: if_splits)
next
  case ConnectThrows
  with assms show ?thesis
    by (auto simp: startup_inv_def split: if_splits)
next
  case ConsumeReturns
  with assms show ?thesis
    by (auto simp: startup_inv_def split: if_splits)
next
  case ConsumeThrows
  with assms show ?thesis
    by (auto simp: startup_inv_def split: if_splits)
qed

lemma startup_run_inv:
  "startup_run es s = Some s' \<Longrightarrow> startup_inv s \<Longrightarrow> startup_inv s'"
proof (induction es arbitrary: s)
  case Nil
  then show ?case by simp
next
  case (Cons e es)
  from Cons.prems(1) obtain s1 where s1: "startup_step e s = Some s1" "startup_run es s1 = Some s'"
    by (auto split: option.splits)
  from Cons.IH [OF s1(2) startup_step_inv [OF s1(1) Cons.prems(2)]] show ?case .
qed

text \<open>
  C9, as amended. In every state that the startup reaches, the readiness line has been
  written only if the queue connection is established, consumption has begun, the heartbeat
  timer is set and the server is listening; the timer is set only after the queue
  connection and the start of consumption. A client connection is accepted whenever the
  server listens, which it does from the loading of the module, so also before the queue
  connection.
\<close>

theorem readiness_after_all:
  assumes "startup_run es module_loaded = Some s"
  shows "(readyLogged s \<longrightarrow>
            queueConnected s \<and> consumeStarted s \<and> monitorStarted s \<and> listening s)
       \<and> (monitorStarted s \<longrightarrow> queueConnected s \<and> consumeStarted s)
       \<and> (listening s \<longrightarrow> startup_step ClientConnects s = Some (s\<lparr>accepted := accepted s + 1\<rparr>))"
proof -
  have "startup_inv module_loaded"
    by (simp add: startup_inv_def module_loaded_def)
  with assms have "startup_inv s"
    by (rule startup_run_inv)
  then show ?thesis
    by (cases "phase s") (simp_all add: startup_inv_def)
qed

text \<open>C9, an instance: a client connects, then the startup completes.\<close>

theorem readiness_after_all_witness:
  "startup_run [ClientConnects, ConnectReturns, ConsumeReturns] module_loaded
     = Some \<lparr>phase = Running, listening = True, queueConnected = True, consumeStarted = True,
             monitorStarted = True, readyLogged = True, accepted = 1\<rparr>
   \<and> queueConnected \<lparr>phase = Running, listening = True, queueConnected = True,
        consumeStarted = True, monitorStarted = True, readyLogged = True, accepted = 1\<rparr>"
proof -
  have run: "startup_run [ClientConnects, ConnectReturns, ConsumeReturns] module_loaded
     = Some \<lparr>phase = Running, listening = True, queueConnected = True, consumeStarted = True,
             monitorStarted = True, readyLogged = True, accepted = 1\<rparr>"
    by (simp add: module_loaded_def)
  from readiness_after_all [OF run] run show ?thesis by simp
qed

text \<open>
  C9 as stated fails: a client that connects while \<^verbatim>\<open>connectToRabbit\<close> is still trying is
  accepted; the queue connection, the consumption and the heartbeat do not exist yet.
\<close>

theorem accepts_before_queue_counterexample:
  "startup_run [ClientConnects] module_loaded
     = Some \<lparr>phase = Connecting, listening = True, queueConnected = False, consumeStarted = False,
             monitorStarted = False, readyLogged = False, accepted = 1\<rparr>"
  by (simp add: module_loaded_def)

end
